theory Spec2Isabelle
  imports Main "HOL-Library.Word" "HOL-Library.Multiset" "HOL-Library.Sublist"
begin

unbundle bit_operations_syntax

section \<open>Permissions (rest.go, lines 13-43)\<close>

text \<open>
  \<^verbatim>\<open>type Permission uint\<close>: an unsigned machine integer, taken here at the 64-bit width
  of Go's \<^verbatim>\<open>uint\<close> on 64-bit targets. Only the five low bits are ever named.
\<close>

type_synonym Permission = "64 word"

text \<open>The constant block \<^verbatim>\<open>List Permission = 1 << iota\<close>, with iota running from 0 to 4.\<close>

definition List :: Permission where
  "List = push_bit (0::nat) 1"

definition Post :: Permission where
  "Post = push_bit (1::nat) 1"

definition Get :: Permission where
  "Get = push_bit (2::nat) 1"

definition Put :: Permission where
  "Put = push_bit (3::nat) 1"

definition Del :: Permission where
  "Del = push_bit (4::nat) 1"

definition Read :: Permission where
  "Read = List OR Get"

definition Write :: Permission where
  "Write = Post OR Put OR Del"

text \<open>Go's \<^verbatim>\<open>All\<close>; the plain name is taken by the universal quantifier of HOL.\<close>

definition All_perm :: Permission where
  "All_perm = Read OR Write"

text \<open>
  Of \<^verbatim>\<open>*http.Request\<close> the package reads the method only; the rest of the request is
  carried along untouched and handed to the authorizer and to the operation handler.
\<close>

record Request =
  Method :: string
  URL_Path :: string
  Credentials :: string

type_synonym Authorizer = "Request \<Rightarrow> Permission"

definition Everyone :: "Permission \<Rightarrow> Authorizer" where
  "Everyone p = (\<lambda>r. p)"

text \<open>
  \<^verbatim>\<open>Any\<close>: the loop \<^verbatim>\<open>for _, v := range f { p |= v(r) }\<close> from \<^verbatim>\<open>var p Permission\<close>
  (zero) is a left-to-right fold over the supplied functions.
\<close>

definition Any :: "Authorizer list \<Rightarrow> Authorizer" where
  "Any f = (\<lambda>r. fold (\<lambda>v p. p OR v r) f 0)"

section \<open>The response writer and \<^verbatim>\<open>http.Error\<close> (standard library)\<close>

text \<open>
  \<^verbatim>\<open>http.ResponseWriter\<close> as the dispatcher uses it: the header map returned by
  \<^verbatim>\<open>Header()\<close> (one list of values per key), the status line, and the body written so
  far. \<open>Status = None\<close> means that no status line has been written yet, which is the
  state in which the server hands the writer to a handler.
\<close>

record ResponseWriter =
  Header :: "string \<rightharpoonup> string list"
  Status :: "nat option"
  Body :: string

text \<open>\<^verbatim>\<open>WriteHeader\<close>: the first status written wins; a later call is ignored.\<close>

definition WriteHeader :: "ResponseWriter \<Rightarrow> nat \<Rightarrow> ResponseWriter" where
  "WriteHeader w code = (if Status w = None then w\<lparr>Status := Some code\<rparr> else w)"

text \<open>\<^verbatim>\<open>Write\<close>: writing a body before any status line implies status 200.\<close>

definition Write_body :: "ResponseWriter \<Rightarrow> string \<Rightarrow> ResponseWriter" where
  "Write_body w s = (WriteHeader w 200)\<lparr>Body := Body w @ s\<rparr>"

text \<open>
  \<^verbatim>\<open>http.Error(w, error, code)\<close> of net/http: it drops \<^verbatim>\<open>Content-Length\<close>, sets
  \<^verbatim>\<open>Content-Type\<close> and \<^verbatim>\<open>X-Content-Type-Options\<close>, writes the status line and prints the
  message followed by a newline. It touches no other header key.
\<close>

definition http_Error :: "ResponseWriter \<Rightarrow> string \<Rightarrow> nat \<Rightarrow> ResponseWriter" where
  "http_Error w msg code =
     (let hd0 = Header w;
          hd1 = hd0(''Content-Length'' := None);
          hd2 = hd1(''Content-Type'' \<mapsto> [''text/plain; charset=utf-8'']);
          hd3 = hd2(''X-Content-Type-Options'' \<mapsto> [''nosniff'']);
          w1 = WriteHeader (w\<lparr>Header := hd3\<rparr>) code
      in Write_body w1 (msg @ [CHR 0x0A]))"

section \<open>The dispatch handler (rest.go, lines 45-120)\<close>

text \<open>
  An \<^verbatim>\<open>http.Handler\<close> is an opaque callable that receives the writer and the request;
  its effect on the response is the writer it leaves behind. A slot holding Go's
  \<^verbatim>\<open>nil\<close> is \<open>None\<close>.
\<close>

type_synonym HttpHandler = "ResponseWriter \<Rightarrow> Request \<Rightarrow> ResponseWriter"

text \<open>
  \<^verbatim>\<open>type Handler struct\<close>. The five slots carry a suffix, since Go's field names
  coincide with the names of the permission constants.
\<close>

record Handler =
  Auth :: "Authorizer option"
  List_hnd :: "HttpHandler option"
  Post_hnd :: "HttpHandler option"
  Get_hnd :: "HttpHandler option"
  Put_hnd :: "HttpHandler option"
  Del_hnd :: "HttpHandler option"

text \<open>
  \<^verbatim>\<open>func (h *Handler) handler(method string) (http.Handler, Permission)\<close>: the switch
  on the method string, in the order of the source; the GET branch may return a nil
  List slot together with the List bit.
\<close>

definition handler :: "Handler \<Rightarrow> string \<Rightarrow> HttpHandler option \<times> Permission" where
  "handler h method =
     (if method = ''GET'' then
        (if Get_hnd h \<noteq> None then (Get_hnd h, Get) else (List_hnd h, List))
      else if method = ''POST'' then (Post_hnd h, Post)
      else if method = ''PUT'' then (Put_hnd h, Put)
      else if method = ''DELETE'' then (Del_hnd h, Del)
      else (None, 0))"

text \<open>\<^verbatim>\<open>func (h *Handler) allowed() []string\<close>: four conditional appends to an empty slice.\<close>

definition allowed :: "Handler \<Rightarrow> string list" where
  "allowed h =
     (let v0 = [];
          v1 = (if List_hnd h \<noteq> None \<or> Get_hnd h \<noteq> None then v0 @ [''GET''] else v0);
          v2 = (if Post_hnd h \<noteq> None then v1 @ [''POST''] else v1);
          v3 = (if Put_hnd h \<noteq> None then v2 @ [''PUT''] else v2);
          v4 = (if Del_hnd h \<noteq> None then v3 @ [''DELETE''] else v3)
      in v4)"

text \<open>
  The calls \<^verbatim>\<open>ServeHTTP\<close> makes to its injected collaborators: the authorizer and the
  resolved operation handler.
\<close>

datatype Call = AuthCall | HandlerCall

text \<open>
  \<^verbatim>\<open>func (h *Handler) ServeHTTP(w, r)\<close>. The result is the writer as the call leaves it
  and the collaborator calls made, in order. The three exits of the source are the
  three leaves: 405 with the \<^verbatim>\<open>Allow\<close> key assigned first, 403, and the forwarded call.
\<close>

definition ServeHTTP :: "Handler \<Rightarrow> ResponseWriter \<Rightarrow> Request \<Rightarrow> ResponseWriter \<times> Call list" where
  "ServeHTTP h w r =
     (case handler h (Method r) of
        (None, want) \<Rightarrow>
          (http_Error (w\<lparr>Header := (Header w)(''Allow'' \<mapsto> allowed h)\<rparr>)
             ''Method not allowed.'' 405, [])
      | (Some hnd, want) \<Rightarrow>
          (let (got, calls) =
                 (case Auth h of None \<Rightarrow> (Read, []) | Some a \<Rightarrow> (a r, [AuthCall]))
           in if want AND got \<noteq> want then
                (http_Error w ''Permission denied.'' 403, calls)
              else (hnd w r, calls @ [HandlerCall])))"

section \<open>Sample inputs\<close>

text \<open>
  Concrete inputs on which the theorems below are instantiated: a writer on which nothing
  has been written, a request with a given method, an operation handler that writes a
  fixed body, the authorizer of rest\_test.go, a collection resource with List and Post,
  and an item resource with Get, Put and Del.
\<close>

definition fresh_writer :: ResponseWriter where
  "fresh_writer = \<lparr>Header = Map.empty, Status = None, Body = []\<rparr>"

definition request :: "string \<Rightarrow> Request" where
  "request m = \<lparr>Method = m, URL_Path = ''/orders'', Credentials = ''member''\<rparr>"

definition reply :: "string \<Rightarrow> HttpHandler" where
  "reply s = (\<lambda>w r. Write_body w s)"

text \<open>\<^verbatim>\<open>MembersCanWrite\<close> of rest\_test.go, whose condition is the constant \<^verbatim>\<open>true\<close>.\<close>

definition MembersCanWrite :: Authorizer where
  "MembersCanWrite = (\<lambda>r. if True then Write else Read)"

definition collection :: Handler where
  "collection = \<lparr>Auth = None, List_hnd = Some (reply ''list''), Post_hnd = Some (reply ''post''),
     Get_hnd = None, Put_hnd = None, Del_hnd = None\<rparr>"

definition item :: Handler where
  "item = \<lparr>Auth = Some MembersCanWrite, List_hnd = None, Post_hnd = None,
     Get_hnd = Some (reply ''get''), Put_hnd = Some (reply ''put''), Del_hnd = Some (reply ''del'')\<rparr>"

section \<open>Basic facts\<close>

lemma perm_values:
  "List = 1" "Post = 2" "Get = 4" "Put = 8" "Del = 16" "Read = 5" "Write = 26" "All_perm = 31"
  by (simp_all add: List_def Post_def Get_def Put_def Del_def Read_def Write_def All_perm_def)

lemma fold_or_bit:
  "bit (fold (\<lambda>v p. p OR v r) fs (a::Permission)) n \<longleftrightarrow> bit a n \<or> (\<exists>f\<in>set fs. bit (f r) n)"
  by (induction fs arbitrary: a) (auto simp: bit_or_iff)

lemma Status_http_Error: "Status w = None \<Longrightarrow> Status (http_Error w msg code) = Some code"
  by (simp add: http_Error_def Write_body_def WriteHeader_def Let_def)

lemma Allow_http_Error: "Header (http_Error w msg code) ''Allow'' = Header w ''Allow''"
  by (simp add: http_Error_def Write_body_def WriteHeader_def Let_def)

lemma subseq_allowed: "subseq (allowed h) [''GET'', ''POST'', ''PUT'', ''DELETE'']"
  by (simp add: allowed_def Let_def)

lemma set_allowed:
  "''GET'' \<in> set (allowed h) \<longleftrightarrow> List_hnd h \<noteq> None \<or> Get_hnd h \<noteq> None"
  "''POST'' \<in> set (allowed h) \<longleftrightarrow> Post_hnd h \<noteq> None"
  "''PUT'' \<in> set (allowed h) \<longleftrightarrow> Put_hnd h \<noteq> None"
  "''DELETE'' \<in> set (allowed h) \<longleftrightarrow> Del_hnd h \<noteq> None"
  by (auto simp add: allowed_def Let_def)

lemma handler_Auth_update: "handler (h\<lparr>Auth := a\<rparr>) m = handler h m"
  by (simp add: handler_def)

section \<open>The access decision\<close>

text \<open>
  C1. Whenever the method resolves to an operation handler with required permission
  \<open>want\<close>, and \<open>got\<close> is the granted permission (Read without an authorizer, the
  authorizer's answer otherwise), the operation handler is called if and only if
  \<open>want AND got = want\<close>; the response is the handler's when the test holds and the 403
  response otherwise. In particular Get against Read is allowed, Put against Read is
  denied, and Put against Write is allowed.
\<close>

theorem C1_access_decision:
  assumes "handler h (Method r) = (Some hnd, want)"
      and "got = (case Auth h of None \<Rightarrow> Read | Some a \<Rightarrow> a r)"
  shows "(HandlerCall \<in> set (snd (ServeHTTP h w r)) \<longleftrightarrow> want AND got = want) \<and>
         fst (ServeHTTP h w r) =
           (if want AND got = want then hnd w r else http_Error w ''Permission denied.'' 403) \<and>
         Get AND Read = Get \<and> Put AND Read \<noteq> Put \<and> Put AND Write = Put"
  using assms by (auto simp: ServeHTTP_def perm_values split: option.splits)

theorem C1_access_decision_witness:
  "handler item (Method (request ''PUT'')) = (Some (reply ''put''), Put) \<and>
   Put AND Write = Put \<and>
   HandlerCall \<in> set (snd (ServeHTTP item fresh_writer (request ''PUT''))) \<and>
   Body (fst (ServeHTTP item fresh_writer (request ''PUT''))) = ''put''"
proof -
  have res: "handler item (Method (request ''PUT'')) = (Some (reply ''put''), Put)"
    by (simp add: handler_def item_def request_def)
  have got: "Write = (case Auth item of None \<Rightarrow> Read | Some a \<Rightarrow> a (request ''PUT''))"
    by (simp add: item_def MembersCanWrite_def)
  show ?thesis
    using C1_access_decision [OF res got, of fresh_writer] res
    by (simp add: perm_values reply_def Write_body_def WriteHeader_def fresh_writer_def)
qed

section \<open>Method not allowed\<close>

text \<open>
  C2. When the method resolves to no operation handler (the \<^verbatim>\<open>hnd == nil\<close> exit) and no
  status line has been written yet, the response has status 405 and its \<^verbatim>\<open>Allow\<close> header
  is the list \<open>allowed h\<close>, one method per entry: a subsequence of GET, POST, PUT, DELETE
  that holds GET exactly when the List or the Get slot is filled, POST exactly when the
  Post slot is, PUT exactly when the Put slot is, and DELETE exactly when the Del slot is.
  No collaborator is called.
\<close>

theorem C2_method_not_allowed:
  assumes "fst (handler h (Method r)) = None" and "Status w = None"
  shows "Status (fst (ServeHTTP h w r)) = Some 405 \<and>
         Header (fst (ServeHTTP h w r)) ''Allow'' = Some (allowed h) \<and>
         snd (ServeHTTP h w r) = [] \<and>
         subseq (allowed h) [''GET'', ''POST'', ''PUT'', ''DELETE''] \<and>
         (''GET'' \<in> set (allowed h) \<longleftrightarrow> List_hnd h \<noteq> None \<or> Get_hnd h \<noteq> None) \<and>
         (''POST'' \<in> set (allowed h) \<longleftrightarrow> Post_hnd h \<noteq> None) \<and>
         (''PUT'' \<in> set (allowed h) \<longleftrightarrow> Put_hnd h \<noteq> None) \<and>
         (''DELETE'' \<in> set (allowed h) \<longleftrightarrow> Del_hnd h \<noteq> None)"
proof -
  obtain want where res: "handler h (Method r) = (None, want)"
    using assms(1) by (cases "handler h (Method r)") simp
  let ?w = "w\<lparr>Header := (Header w)(''Allow'' \<mapsto> allowed h)\<rparr>"
  have run: "ServeHTTP h w r = (http_Error ?w ''Method not allowed.'' 405, [])"
    by (simp add: ServeHTTP_def res)
  have "Status ?w = None" using assms(2) by simp
  then have st: "Status (fst (ServeHTTP h w r)) = Some 405"
    unfolding run fst_conv by (rule Status_http_Error)
  have al: "Header (fst (ServeHTTP h w r)) ''Allow'' = Some (allowed h)"
    unfolding run fst_conv by (simp add: Allow_http_Error)
  show ?thesis
    using st al run subseq_allowed [of h] set_allowed [of h] by simp
qed

theorem C2_method_not_allowed_witness:
  "fst (handler collection (Method (request ''DELETE''))) = None \<and>
   Status fresh_writer = None \<and>
   Status (fst (ServeHTTP collection fresh_writer (request ''DELETE''))) = Some 405 \<and>
   Header (fst (ServeHTTP collection fresh_writer (request ''DELETE''))) ''Allow''
     = Some [''GET'', ''POST'']"
proof -
  have res: "fst (handler collection (Method (request ''DELETE''))) = None"
    by (simp add: handler_def collection_def request_def)
  have fresh: "Status fresh_writer = None"
    by (simp add: fresh_writer_def)
  have al: "allowed collection = [''GET'', ''POST'']"
    by (simp add: allowed_def collection_def)
  show ?thesis
    using C2_method_not_allowed [OF res fresh] res fresh by (simp add: al)
qed

section \<open>The permission constants\<close>

text \<open>
  C9. List, Post, Get, Put and Del are the single bits 0 to 4, pairwise distinct;
  Read is List or Get, Write is Post or Put or Del, and All is Read or Write
  (the values 5, 26 and 31).
\<close>

theorem C9_permission_constants:
  "List = 2 ^ 0 \<and> Post = 2 ^ 1 \<and> Get = 2 ^ 2 \<and> Put = 2 ^ 3 \<and> Del = 2 ^ 4 \<and>
   distinct [List, Post, Get, Put, Del] \<and>
   Read = List OR Get \<and> Write = Post OR Put OR Del \<and> All_perm = Read OR Write \<and>
   Read = 5 \<and> Write = 26 \<and> All_perm = 31"
  by (simp add: perm_values)

section \<open>The default grant\<close>

text \<open>
  C3. Without an authorizer, a request that resolves to an operation handler is decided
  against Read: the handler is called when the required permission is within Read and the
  403 response is written otherwise, and the response is the one an authorizer that always
  answers Read would give. Consequently a PUT that resolves (so the Put slot is filled)
  gets status 403 on a fresh writer, and the operation handler is not called.
\<close>

theorem C3_nil_auth_grants_read:
  assumes "Auth h = None" and "handler h (Method r) = (Some hnd, want)"
  shows "ServeHTTP h w r =
           (if want AND Read = want then (hnd w r, [HandlerCall])
            else (http_Error w ''Permission denied.'' 403, [])) \<and>
         fst (ServeHTTP h w r) = fst (ServeHTTP (h\<lparr>Auth := Some (Everyone Read)\<rparr>) w r) \<and>
         (Method r = ''PUT'' \<and> Status w = None \<longrightarrow>
            Status (fst (ServeHTTP h w r)) = Some 403 \<and>
            HandlerCall \<notin> set (snd (ServeHTTP h w r)))"
proof -
  have hu: "handler (h\<lparr>Auth := Some (Everyone Read)\<rparr>) (Method r) = (Some hnd, want)"
    using assms(2) by (simp add: handler_Auth_update)
  have run: "ServeHTTP h w r =
           (if want AND Read = want then (hnd w r, [HandlerCall])
            else (http_Error w ''Permission denied.'' 403, []))"
    using assms by (simp add: ServeHTTP_def)
  have same: "fst (ServeHTTP h w r) = fst (ServeHTTP (h\<lparr>Auth := Some (Everyone Read)\<rparr>) w r)"
    unfolding run by (simp add: ServeHTTP_def handler_Auth_update assms(2) Everyone_def)
  have put: "Status (fst (ServeHTTP h w r)) = Some 403 \<and>
            HandlerCall \<notin> set (snd (ServeHTTP h w r))"
    if m: "Method r = ''PUT''" and f: "Status w = None"
  proof -
    have "want = Put" using assms(2) m by (simp add: handler_def)
    then have "want AND Read \<noteq> want" by (simp add: perm_values)
    then show ?thesis unfolding run using f by (simp add: Status_http_Error)
  qed
  show ?thesis using run same put by blast
qed

theorem C3_nil_auth_grants_read_witness:
  "Auth (collection\<lparr>List_hnd := None, Post_hnd := None, Put_hnd := Some (reply ''put'')\<rparr>) = None \<and>
   handler (collection\<lparr>List_hnd := None, Post_hnd := None, Put_hnd := Some (reply ''put'')\<rparr>)
      (Method (request ''PUT'')) = (Some (reply ''put''), Put) \<and>
   Status (fst (ServeHTTP (collection\<lparr>List_hnd := None, Post_hnd := None, Put_hnd := Some (reply ''put'')\<rparr>)
      fresh_writer (request ''PUT''))) = Some 403 \<and>
   HandlerCall \<notin> set (snd (ServeHTTP
      (collection\<lparr>List_hnd := None, Post_hnd := None, Put_hnd := Some (reply ''put'')\<rparr>)
      fresh_writer (request ''PUT'')))"
proof -
  let ?h = "collection\<lparr>List_hnd := None, Post_hnd := None, Put_hnd := Some (reply ''put'')\<rparr>"
  have a: "Auth ?h = None" by (simp add: collection_def)
  have res: "handler ?h (Method (request ''PUT'')) = (Some (reply ''put''), Put)"
    by (simp add: handler_def request_def)
  have m: "Method (request ''PUT'') = ''PUT''" by (simp add: request_def)
  have f: "Status fresh_writer = None" by (simp add: fresh_writer_def)
  have "Status (fst (ServeHTTP ?h fresh_writer (request ''PUT''))) = Some 403 \<and>
        HandlerCall \<notin> set (snd (ServeHTTP ?h fresh_writer (request ''PUT'')))"
    using C3_nil_auth_grants_read [OF a res, of fresh_writer] m f by blast
  then show ?thesis using a res by blast
qed

section \<open>Resolving GET\<close>

text \<open>
  C4. GET resolves to the Get slot with the Get bit whenever the Get slot is filled; it
  resolves to the List slot with the List bit exactly when the Get slot is nil; with both
  slots filled the handler is the Get handler and the required permission is the Get bit,
  which is not the List bit.
\<close>

theorem C4_get_precedence:
  "(Get_hnd h \<noteq> None \<longrightarrow> handler h ''GET'' = (Get_hnd h, Get)) \<and>
   (handler h ''GET'' = (List_hnd h, List) \<longleftrightarrow> Get_hnd h = None) \<and>
   (List_hnd h \<noteq> None \<and> Get_hnd h \<noteq> None \<longrightarrow>
      fst (handler h ''GET'') = Get_hnd h \<and> snd (handler h ''GET'') = Get \<and>
      snd (handler h ''GET'') \<noteq> List)"
  by (auto simp: handler_def perm_values)

theorem C4_get_precedence_witness:
  "handler (item\<lparr>List_hnd := Some (reply ''list'')\<rparr>) ''GET'' = (Some (reply ''get''), Get) \<and>
   handler (item\<lparr>List_hnd := Some (reply ''list'')\<rparr>) ''GET'' \<noteq> (Some (reply ''list''), List) \<and>
   snd (handler (item\<lparr>List_hnd := Some (reply ''list'')\<rparr>) ''GET'') \<noteq> List"
  using C4_get_precedence [of "item\<lparr>List_hnd := Some (reply ''list'')\<rparr>"]
  by (simp add: item_def perm_values)

text \<open>
  The statement that a GET served by the List handler is checked against the Get bit fails
  on the code: on a collection resource whose authorizer grants exactly Get, the required
  permission of GET is the List bit, and the request is answered with 403.
\<close>

theorem C5_get_fallback_requires_get_counterexample:
  "Get_hnd (collection\<lparr>Auth := Some (Everyone Get)\<rparr>) = None \<and>
   List_hnd (collection\<lparr>Auth := Some (Everyone Get)\<rparr>) \<noteq> None \<and>
   snd (handler (collection\<lparr>Auth := Some (Everyone Get)\<rparr>) ''GET'') \<noteq> Get \<and>
   snd (handler (collection\<lparr>Auth := Some (Everyone Get)\<rparr>) ''GET'') = List \<and>
   Status (fst (ServeHTTP (collection\<lparr>Auth := Some (Everyone Get)\<rparr>) fresh_writer (request ''GET'')))
     = Some 403"
  by (simp add: collection_def handler_def perm_values ServeHTTP_def request_def Everyone_def
      Status_http_Error fresh_writer_def)

text \<open>
  C5, as the code has it. When the Get slot is nil and the List slot is filled, a GET
  request is checked against the List bit: the List handler is called exactly when the
  granted permission contains the List bit, and the 403 response is written otherwise.
\<close>

theorem C5_get_fallback_requires_list:
  assumes "Get_hnd h = None" and "List_hnd h = Some l" and "Method r = ''GET''"
      and "got = (case Auth h of None \<Rightarrow> Read | Some a \<Rightarrow> a r)"
  shows "snd (handler h (Method r)) = List \<and>
         fst (ServeHTTP h w r) =
           (if List AND got = List then l w r else http_Error w ''Permission denied.'' 403) \<and>
         (HandlerCall \<in> set (snd (ServeHTTP h w r)) \<longleftrightarrow> List AND got = List)"
  using assms by (auto simp: ServeHTTP_def handler_def split: option.splits)

theorem C5_get_fallback_requires_list_witness:
  "Get_hnd (collection\<lparr>Auth := Some (Everyone List)\<rparr>) = None \<and>
   List_hnd (collection\<lparr>Auth := Some (Everyone List)\<rparr>) = Some (reply ''list'') \<and>
   Method (request ''GET'') = ''GET'' \<and>
   snd (handler (collection\<lparr>Auth := Some (Everyone List)\<rparr>) (Method (request ''GET''))) = List \<and>
   fst (ServeHTTP (collection\<lparr>Auth := Some (Everyone List)\<rparr>) fresh_writer (request ''GET''))
     = reply ''list'' fresh_writer (request ''GET'') \<and>
   HandlerCall \<in> set (snd (ServeHTTP (collection\<lparr>Auth := Some (Everyone List)\<rparr>) fresh_writer
     (request ''GET'')))"
proof -
  let ?h = "collection\<lparr>Auth := Some (Everyone List)\<rparr>"
  have g: "Get_hnd ?h = None" by (simp add: collection_def)
  have l: "List_hnd ?h = Some (reply ''list'')" by (simp add: collection_def)
  have m: "Method (request ''GET'') = ''GET''" by (simp add: request_def)
  have got: "List = (case Auth ?h of None \<Rightarrow> Read | Some a \<Rightarrow> a (request ''GET''))"
    by (simp add: Everyone_def)
  show ?thesis
    using C5_get_fallback_requires_list [OF g l m got, of fresh_writer] g l m by simp
qed

text \<open>
  C6. On a handler with only the List and Post slots filled, GET resolves to the List
  handler and the required permission is the List bit.
\<close>

theorem C6_list_and_post_only:
  assumes "List_hnd h = Some l" and "Post_hnd h = Some p"
      and "Get_hnd h = None" and "Put_hnd h = None" and "Del_hnd h = None"
  shows "handler h ''GET'' = (Some l, List)"
  using assms by (simp add: handler_def)

theorem C6_list_and_post_only_witness:
  "List_hnd collection = Some (reply ''list'') \<and> Post_hnd collection = Some (reply ''post'') \<and>
   Get_hnd collection = None \<and> Put_hnd collection = None \<and> Del_hnd collection = None \<and>
   handler collection ''GET'' = (Some (reply ''list''), List)"
proof -
  have p: "List_hnd collection = Some (reply ''list'')" "Post_hnd collection = Some (reply ''post'')"
    "Get_hnd collection = None" "Put_hnd collection = None" "Del_hnd collection = None"
    by (simp_all add: collection_def)
  show ?thesis
    using C6_list_and_post_only [OF p] p by simp
qed

section \<open>The forbidden exit\<close>

text \<open>
  C7. When the request resolves to an operation handler and the required permission is
  not within the granted one, the writer is left as \<^verbatim>\<open>http.Error\<close> with status 403 leaves
  it (status 403 on a fresh writer), and no operation handler is called.
\<close>

theorem C7_forbidden_no_handler_call:
  assumes "handler h (Method r) = (Some hnd, want)"
      and "got = (case Auth h of None \<Rightarrow> Read | Some a \<Rightarrow> a r)"
      and "want AND got \<noteq> want"
  shows "fst (ServeHTTP h w r) = http_Error w ''Permission denied.'' 403 \<and>
         HandlerCall \<notin> set (snd (ServeHTTP h w r)) \<and>
         (Status w = None \<longrightarrow> Status (fst (ServeHTTP h w r)) = Some 403)"
  using assms by (auto simp: ServeHTTP_def Status_http_Error split: option.splits)

theorem C7_forbidden_no_handler_call_witness:
  "handler (item\<lparr>Auth := Some (Everyone Read)\<rparr>) (Method (request ''DELETE''))
     = (Some (reply ''del''), Del) \<and>
   Del AND Read \<noteq> Del \<and> Status fresh_writer = None \<and>
   Status (fst (ServeHTTP (item\<lparr>Auth := Some (Everyone Read)\<rparr>) fresh_writer (request ''DELETE'')))
     = Some 403 \<and>
   Body (fst (ServeHTTP (item\<lparr>Auth := Some (Everyone Read)\<rparr>) fresh_writer (request ''DELETE'')))
     = ''Permission denied.'' @ [CHR 0x0A] \<and>
   HandlerCall \<notin> set (snd (ServeHTTP (item\<lparr>Auth := Some (Everyone Read)\<rparr>) fresh_writer
     (request ''DELETE'')))"
proof -
  let ?h = "item\<lparr>Auth := Some (Everyone Read)\<rparr>"
  have res: "handler ?h (Method (request ''DELETE'')) = (Some (reply ''del''), Del)"
    by (simp add: handler_def item_def request_def)
  have got: "Read = (case Auth ?h of None \<Rightarrow> Read | Some a \<Rightarrow> a (request ''DELETE''))"
    by (simp add: Everyone_def)
  have no: "Del AND Read \<noteq> Del" by (simp add: perm_values)
  have f: "Status fresh_writer = None" by (simp add: fresh_writer_def)
  have b: "Body (http_Error fresh_writer ''Permission denied.'' 403)
             = ''Permission denied.'' @ [CHR 0x0A]"
    by (simp add: http_Error_def Write_body_def WriteHeader_def fresh_writer_def Let_def)
  show ?thesis
    using C7_forbidden_no_handler_call [OF res got no, of fresh_writer] res no f b
    by (simp add: Status_http_Error)
qed

section \<open>The union of authorizers\<close>

text \<open>
  C8. \<open>Any fs\<close> applied to a request has exactly the bits that some function of \<open>fs\<close>
  grants on that request, that is the union \<open>f1 r OR ... OR fn r\<close>; for no function it is
  0, for two it is \<open>f1 r OR f2 r\<close>, and reordering the functions does not change it.
\<close>

theorem C8_any_is_union:
  "(\<forall>n. bit (Any fs r) n \<longleftrightarrow> (\<exists>f\<in>set fs. bit (f r) n)) \<and>
   Any fs r = foldr (\<lambda>f p. f r OR p) fs 0 \<and>
   Any [] r = 0 \<and>
   Any [f1, f2] r = f1 r OR f2 r \<and>
   (mset fs = mset gs \<longrightarrow> Any fs r = Any gs r)"
proof -
  have b: "bit (Any hs r) n \<longleftrightarrow> (\<exists>f\<in>set hs. bit (f r) n)" for hs n
    by (simp add: Any_def fold_or_bit)
  have fr: "Any fs r = foldr (\<lambda>f p. f r OR p) fs 0"
  proof (rule bit_eqI)
    fix n
    have "bit (foldr (\<lambda>f p. f r OR p) hs (0::Permission)) n \<longleftrightarrow> (\<exists>f\<in>set hs. bit (f r) n)" for hs
      by (induction hs) (auto simp: bit_or_iff)
    then show "bit (Any fs r) n \<longleftrightarrow> bit (foldr (\<lambda>f p. f r OR p) fs 0) n"
      using b by simp
  qed
  have perm: "Any fs r = Any gs r" if "mset fs = mset gs"
  proof (rule bit_eqI)
    fix n
    from that have "set fs = set gs" by (rule mset_eq_setD)
    then show "bit (Any fs r) n \<longleftrightarrow> bit (Any gs r) n" by (simp add: b)
  qed
  have e: "Any [] r = 0" by (simp add: Any_def)
  have p: "Any [f1, f2] r = f1 r OR f2 r" by (simp add: Any_def)
  show ?thesis using b fr e p perm by blast
qed

theorem C8_any_is_union_witness:
  "mset [Everyone List, Everyone Get] = mset [Everyone Get, Everyone List] \<and>
   Any [Everyone List, Everyone Get] (request ''GET'') = Read \<and>
   Any [Everyone Get, Everyone List] (request ''GET'') = Read"
proof -
  have m: "mset [Everyone List, Everyone Get] = mset [Everyone Get, Everyone List]"
    by (simp add: add.commute)
  have u: "Any [Everyone List, Everyone Get] (request ''GET'') = Read"
    by (simp add: Any_def Everyone_def perm_values)
  have "Any [Everyone List, Everyone Get] (request ''GET'')
          = Any [Everyone Get, Everyone List] (request ''GET'')"
    using C8_any_is_union [of "[Everyone List, Everyone Get]" "request ''GET''" _ _
        "[Everyone Get, Everyone List]"] m
    by blast
  then show ?thesis using m u by simp
qed

section \<open>The 405 exit does not consult the authorizer\<close>

text \<open>
  C10. When the method resolves to no operation handler, the outcome of \<^verbatim>\<open>ServeHTTP\<close>
  (writer and calls) is the same for any two values of the Auth field, the authorizer is
  not called, and on a fresh writer the status is 405 with the \<^verbatim>\<open>Allow\<close> header of the
  handler's slots.
\<close>

theorem C10_405_independent_of_auth:
  assumes "fst (handler h (Method r)) = None"
  shows "ServeHTTP (h\<lparr>Auth := a1\<rparr>) w r = ServeHTTP (h\<lparr>Auth := a2\<rparr>) w r \<and>
         ServeHTTP (h\<lparr>Auth := a1\<rparr>) w r = ServeHTTP h w r \<and>
         AuthCall \<notin> set (snd (ServeHTTP h w r)) \<and>
         (Status w = None \<longrightarrow>
            Status (fst (ServeHTTP (h\<lparr>Auth := a1\<rparr>) w r)) = Some 405 \<and>
            Header (fst (ServeHTTP (h\<lparr>Auth := a1\<rparr>) w r)) ''Allow'' = Some (allowed h))"
proof -
  obtain want where res: "handler h (Method r) = (None, want)"
    using assms by (cases "handler h (Method r)") simp
  have al: "allowed (h\<lparr>Auth := a\<rparr>) = allowed h" for a
    by (simp add: allowed_def)
  have run: "ServeHTTP (h\<lparr>Auth := a\<rparr>) w r =
      (http_Error (w\<lparr>Header := (Header w)(''Allow'' \<mapsto> allowed h)\<rparr>) ''Method not allowed.'' 405, [])"
    for a
    by (simp add: ServeHTTP_def handler_Auth_update res al)
  have run0: "ServeHTTP h w r =
      (http_Error (w\<lparr>Header := (Header w)(''Allow'' \<mapsto> allowed h)\<rparr>) ''Method not allowed.'' 405, [])"
    by (simp add: ServeHTTP_def res)
  show ?thesis
    by (simp add: run run0 Status_http_Error Allow_http_Error)
qed

theorem C10_405_independent_of_auth_witness:
  "fst (handler item (Method (request ''POST''))) = None \<and>
   ServeHTTP (item\<lparr>Auth := None\<rparr>) fresh_writer (request ''POST'')
     = ServeHTTP (item\<lparr>Auth := Some (Everyone All_perm)\<rparr>) fresh_writer (request ''POST'') \<and>
   AuthCall \<notin> set (snd (ServeHTTP item fresh_writer (request ''POST''))) \<and>
   Header (fst (ServeHTTP (item\<lparr>Auth := None\<rparr>) fresh_writer (request ''POST''))) ''Allow''
     = Some [''GET'', ''PUT'', ''DELETE'']"
proof -
  have res: "fst (handler item (Method (request ''POST''))) = None"
    by (simp add: handler_def item_def request_def)
  have f: "Status fresh_writer = None" by (simp add: fresh_writer_def)
  have al: "allowed item = [''GET'', ''PUT'', ''DELETE'']"
    by (simp add: allowed_def item_def)
  note t = C10_405_independent_of_auth [OF res, of None fresh_writer "Some (Everyone All_perm)"]
  from t have same: "ServeHTTP (item\<lparr>Auth := None\<rparr>) fresh_writer (request ''POST'')
     = ServeHTTP (item\<lparr>Auth := Some (Everyone All_perm)\<rparr>) fresh_writer (request ''POST'')"
    by (rule conjunct1)
  from t have quiet: "AuthCall \<notin> set (snd (ServeHTTP item fresh_writer (request ''POST'')))"
    by blast
  from t f have "Header (fst (ServeHTTP (item\<lparr>Auth := None\<rparr>) fresh_writer (request ''POST'')))
      ''Allow'' = Some (allowed item)"
    by blast
  then have hdr: "Header (fst (ServeHTTP (item\<lparr>Auth := None\<rparr>) fresh_writer (request ''POST'')))
      ''Allow'' = Some [''GET'', ''PUT'', ''DELETE'']"
    by (simp only: al)
  show ?thesis using res same quiet hdr by blast
qed

end
